theory Spec2Isabelle
  imports Main "HOL-Library.AList" "HOL-Library.Word"
begin

section \<open>Go values used by the tracing layer\<close>

text \<open>
  A Go map is an association list read with \<open>map_of\<close> and written with
  \<open>AList.update\<close> (\<open>m[k] = v\<close>); a \<open>for k, v := range m\<close> loop visits the entries
  in the order of the list, which stands for the unspecified iteration order of Go.
  A map variable that may be nil is an \<open>option\<close> of such a list.

  A value of the empty interface \<open>any\<close> carries its dynamic type.  The ten types the
  attribute conversion knows have a constructor each; \<open>VNil\<close> is the nil interface
  and \<open>VOther T p\<close> is a value of any other dynamic type \<open>T\<close> with payload \<open>p\<close>.
  On the 64-bit targets of the module \<open>int\<close> and \<open>int64\<close> are 64-bit words; a
  \<open>float64\<close> is kept as its 64-bit pattern, since the layer only passes it on.
\<close>

type_synonym ('k, 'v) gomap = "('k \<times> 'v) list"

datatype go_value =
    VNil
  | VString string
  | VInt "64 word"
  | VInt64 "64 word"
  | VFloat64 "64 word"
  | VBool bool
  | VStringSlice "string list"
  | VIntSlice "64 word list"
  | VInt64Slice "64 word list"
  | VFloat64Slice "64 word list"
  | VBoolSlice "bool list"
  | VOther string string

text \<open>
  \<open>time.Time\<close> is the number of nanoseconds since the zero instant of the type, so
  that \<open>IsZero\<close> is the comparison with 0.  \<open>time.Now()\<close> reads the clock: the
  reading is a parameter of every function that takes it.
\<close>

type_synonym Time = int

definition IsZero :: "Time \<Rightarrow> bool" where
  "IsZero t = (t = 0)"

section \<open>tracer.go: span configuration and options\<close>

text \<open>\<open>type SpanKind int\<close> with five constants numbered by \<open>iota\<close>.\<close>

type_synonym SpanKind = int

definition SpanKindInternal :: SpanKind where "SpanKindInternal = 0"
definition SpanKindServer :: SpanKind where "SpanKindServer = 1"
definition SpanKindClient :: SpanKind where "SpanKindClient = 2"
definition SpanKindProducer :: SpanKind where "SpanKindProducer = 3"
definition SpanKindConsumer :: SpanKind where "SpanKindConsumer = 4"

record SpanConfig =
  Kind :: SpanKind
  Attributes :: "(string, go_value) gomap option"
  Timestamp :: Time


text \<open>
  \<open>type SpanOption func(*SpanConfig)\<close>: an option mutates the configuration it is
  handed, so it is a function from the configuration before to the one after.
\<close>

type_synonym SpanOption = "SpanConfig \<Rightarrow> SpanConfig"


text \<open>The loop \<open>for k, v := range attrs { c.Attributes[k] = v }\<close>.\<close>

fun assign_all :: "('k, 'v) gomap \<Rightarrow> ('k, 'v) gomap \<Rightarrow> ('k, 'v) gomap" where
  "assign_all [] m = m"
| "assign_all ((k, v) # rest) m = assign_all rest (AList.update k v m)"



definition defaultSpanConfig :: "Time \<Rightarrow> SpanConfig" where
  "defaultSpanConfig now = \<lparr>Kind = SpanKindInternal, Attributes = Some [], Timestamp = now\<rparr>"

fun apply_each :: "SpanOption list \<Rightarrow> SpanConfig \<Rightarrow> SpanConfig" where
  "apply_each [] config = config"
| "apply_each (opt # opts) config = apply_each opts (opt config)"

definition applySpanOptions :: "Time \<Rightarrow> SpanOption list \<Rightarrow> SpanConfig" where
  "applySpanOptions now opts = apply_each opts (defaultSpanConfig now)"


section \<open>provider\_otlp.go: attribute conversion\<close>

text \<open>
  The SDK's \<open>attribute.KeyValue\<close>: a key and a typed value.  The SDK has one integer
  type, \<open>INT64\<close>: \<open>attribute.Int\<close> and \<open>attribute.IntSlice\<close> convert an \<open>int\<close> to
  \<open>int64\<close>, which is the identity on 64-bit words.
\<close>

datatype attr_value =
    StringValue string
  | Int64Value "64 word"
  | Float64Value "64 word"
  | BoolValue bool
  | StringSliceValue "string list"
  | Int64SliceValue "64 word list"
  | Float64SliceValue "64 word list"
  | BoolSliceValue "bool list"

record KeyValue =
  Key :: string
  Value :: attr_value

definition attribute_String :: "string \<Rightarrow> string \<Rightarrow> KeyValue" where
  "attribute_String k v = \<lparr>Key = k, Value = StringValue v\<rparr>"

definition attribute_Int :: "string \<Rightarrow> 64 word \<Rightarrow> KeyValue" where
  "attribute_Int k v = \<lparr>Key = k, Value = Int64Value v\<rparr>"

definition attribute_Int64 :: "string \<Rightarrow> 64 word \<Rightarrow> KeyValue" where
  "attribute_Int64 k v = \<lparr>Key = k, Value = Int64Value v\<rparr>"

definition attribute_Float64 :: "string \<Rightarrow> 64 word \<Rightarrow> KeyValue" where
  "attribute_Float64 k v = \<lparr>Key = k, Value = Float64Value v\<rparr>"

definition attribute_Bool :: "string \<Rightarrow> bool \<Rightarrow> KeyValue" where
  "attribute_Bool k v = \<lparr>Key = k, Value = BoolValue v\<rparr>"

definition attribute_StringSlice :: "string \<Rightarrow> string list \<Rightarrow> KeyValue" where
  "attribute_StringSlice k v = \<lparr>Key = k, Value = StringSliceValue v\<rparr>"

definition attribute_IntSlice :: "string \<Rightarrow> 64 word list \<Rightarrow> KeyValue" where
  "attribute_IntSlice k v = \<lparr>Key = k, Value = Int64SliceValue v\<rparr>"

definition attribute_Int64Slice :: "string \<Rightarrow> 64 word list \<Rightarrow> KeyValue" where
  "attribute_Int64Slice k v = \<lparr>Key = k, Value = Int64SliceValue v\<rparr>"

definition attribute_Float64Slice :: "string \<Rightarrow> 64 word list \<Rightarrow> KeyValue" where
  "attribute_Float64Slice k v = \<lparr>Key = k, Value = Float64SliceValue v\<rparr>"

definition attribute_BoolSlice :: "string \<Rightarrow> bool list \<Rightarrow> KeyValue" where
  "attribute_BoolSlice k v = \<lparr>Key = k, Value = BoolSliceValue v\<rparr>"

text \<open>
  The type switch of \<open>toAttribute\<close>, in the order of the source.  The formatting
  \<open>fmt.Sprintf("%v", v)\<close> of the standard library is the parameter \<open>sprintf_v\<close>.
\<close>

fun toAttribute :: "(go_value \<Rightarrow> string) \<Rightarrow> string \<Rightarrow> go_value \<Rightarrow> KeyValue" where
  "toAttribute sprintf_v key (VString v) = attribute_String key v"
| "toAttribute sprintf_v key (VInt v) = attribute_Int key v"
| "toAttribute sprintf_v key (VInt64 v) = attribute_Int64 key v"
| "toAttribute sprintf_v key (VFloat64 v) = attribute_Float64 key v"
| "toAttribute sprintf_v key (VBool v) = attribute_Bool key v"
| "toAttribute sprintf_v key (VStringSlice v) = attribute_StringSlice key v"
| "toAttribute sprintf_v key (VIntSlice v) = attribute_IntSlice key v"
| "toAttribute sprintf_v key (VInt64Slice v) = attribute_Int64Slice key v"
| "toAttribute sprintf_v key (VFloat64Slice v) = attribute_Float64Slice key v"
| "toAttribute sprintf_v key (VBoolSlice v) = attribute_BoolSlice key v"
| "toAttribute sprintf_v key v = attribute_String key (sprintf_v v)"

section \<open>provider\_otlp.go: the carrier shim over \<open>map[string][]string\<close>\<close>

text \<open>
  A Go panic is a value of its own.  Writing to a nil map panics; reading one does not.
\<close>

datatype panic = AssignmentToNilMap | NilPointerDereference

record headerCarrier =
  headers :: "(string, string list) gomap option"

definition Get :: "headerCarrier \<Rightarrow> string \<Rightarrow> string" where
  "Get c key =
     (case headers c of
        None \<Rightarrow> ''''
      | Some m \<Rightarrow> (case map_of m key of Some (v # vs) \<Rightarrow> v | _ \<Rightarrow> ''''))"

definition Set :: "headerCarrier \<Rightarrow> string \<Rightarrow> string \<Rightarrow> panic + headerCarrier" where
  "Set c key val =
     (case headers c of
        None \<Rightarrow> Inl AssignmentToNilMap
      | Some m \<Rightarrow> Inr (c\<lparr>headers := Some (AList.update key [val] m)\<rparr>))"

text \<open>The loop \<open>for k := range c.headers { keys = append(keys, k) }\<close>.\<close>

fun append_keys :: "('k, 'v) gomap \<Rightarrow> 'k list \<Rightarrow> 'k list" where
  "append_keys [] keys = keys"
| "append_keys ((k, v) # rest) keys = append_keys rest (keys @ [k])"

definition Keys :: "headerCarrier \<Rightarrow> string list" where
  "Keys c = (case headers c of None \<Rightarrow> [] | Some m \<Rightarrow> append_keys m [])"

section \<open>Contexts and span handles\<close>

text \<open>
  A \<open>context.Context\<close> is an immutable chain: \<open>context.WithValue\<close> puts one entry in
  front of its parent and \<open>Value\<close> returns the entry nearest to the front.  The keys
  are the unexported \<open>spanContextKey{}\<close> of this package, the SDK's own key for its
  current span, and the keys of anybody else.

  A non-nil \<open>Span\<close> is a pointer to a \<open>noopSpan\<close> or an \<open>otlpSpan\<close>; the structs live
  in a store, an address is an index into it, and \<open>&noopSpan{...}\<close> allocates at the
  end.  The nil interface is \<open>None\<close>.
\<close>

type_synonym addr = nat

datatype Span = NoopSpanPtr addr | OtlpSpanPtr addr

datatype ctx_key = spanContextKey | currentSpanKey | otherKey string

datatype ctx_val = SpanValue "Span option" | OtelSpanValue nat | OtherValue string

datatype Context = Background | WithValue Context ctx_key ctx_val

fun Value_of :: "Context \<Rightarrow> ctx_key \<Rightarrow> ctx_val option" where
  "Value_of Background key = None"
| "Value_of (WithValue parent k v) key = (if key = k then Some v else Value_of parent key)"

text \<open>
  \<open>SpanFromContext\<close>: the type assertion \<open>.(Span)\<close> succeeds on a non-nil value that
  is a \<open>Span\<close>, and the function returns nil otherwise.
\<close>

definition SpanFromContext :: "Context \<Rightarrow> Span option" where
  "SpanFromContext ctx =
     (case Value_of ctx spanContextKey of Some (SpanValue (Some span)) \<Rightarrow> Some span | _ \<Rightarrow> None)"

definition ContextWithSpan :: "Context \<Rightarrow> Span option \<Rightarrow> Context" where
  "ContextWithSpan ctx span = WithValue ctx spanContextKey (SpanValue span)"

text \<open>Whether some entry of the chain is stored under \<open>spanContextKey{}\<close>.\<close>

fun has_span_entry :: "Context \<Rightarrow> bool" where
  "has_span_entry Background = False"
| "has_span_entry (WithValue parent k v) = (k = spanContextKey \<or> has_span_entry parent)"

section \<open>Errors\<close>

text \<open>
  An \<open>error\<close> is made by \<open>errors.New\<close>/\<open>fmt.Errorf\<close> from a message, or by
  \<open>fmt.Errorf("...: %w", err)\<close> around another error; \<open>Error_msg\<close> is \<open>Error()\<close>.
\<close>

datatype error = ErrorNew string | ErrorWrap string error

fun Error_msg :: "error \<Rightarrow> string" where
  "Error_msg (ErrorNew msg) = msg"
| "Error_msg (ErrorWrap prefix err) = prefix @ Error_msg err"

section \<open>The tracing SDK as seen from this module\<close>

text \<open>
  The OpenTelemetry SDK is not part of the module.  Every call the module makes to a
  tracer, a span or a tracer provider is appended to a log, which is the whole effect
  of the call on this side.  \<open>tracer.Start\<close> hands out span handles in sequence and
  returns the Context it was given with the new span stored under the SDK's own key.
\<close>

datatype otel_kind = OtelInternal | OtelServer | OtelClient | OtelProducer | OtelConsumer

datatype span_start_option =
    trace_WithSpanKind otel_kind
  | trace_WithAttributes "KeyValue list"
  | trace_WithTimestamp Time

datatype sdk_call =
    TracerStart Context string "span_start_option list"
  | SpanEnd nat
  | SpanSetAttributes nat "KeyValue list"
  | SpanRecordError nat "error option"
  | SpanAddEvent nat string "KeyValue list"
  | TracerProviderShutdown Context

record noopSpan =
  noopSpan_ctx :: Context

record otlpSpan =
  otlpSpan_span :: nat
  otlpSpan_ctx :: Context

record world =
  noopSpans :: "noopSpan list"
  otlpSpans :: "otlpSpan list"
  sdk_calls :: "sdk_call list"
  sdk_spans :: nat

definition tracer_Start ::
  "world \<Rightarrow> Context \<Rightarrow> string \<Rightarrow> span_start_option list \<Rightarrow> world \<times> Context \<times> nat" where
  "tracer_Start w ctx name spanOpts =
     (let h = sdk_spans w
      in (w\<lparr>sdk_calls := sdk_calls w @ [TracerStart ctx name spanOpts], sdk_spans := h + 1\<rparr>,
          WithValue ctx currentSpanKey (OtelSpanValue h), h))"


section \<open>provider\_noop.go\<close>

definition noopProvider_Start ::
  "world \<Rightarrow> Context \<Rightarrow> string \<Rightarrow> SpanOption list \<Rightarrow> world \<times> Context \<times> Span" where
  "noopProvider_Start w ctx operationName opts =
     (let span = NoopSpanPtr (length (noopSpans w));
          w' = w\<lparr>noopSpans := noopSpans w @ [\<lparr>noopSpan_ctx = ctx\<rparr>]\<rparr>
      in (w', ContextWithSpan ctx (Some span), span))"








definition noopSpan_Context :: "world \<Rightarrow> addr \<Rightarrow> panic + Context" where
  "noopSpan_Context w s =
     (if s < length (noopSpans w) then Inr (noopSpan_ctx (noopSpans w ! s))
      else Inl NilPointerDereference)"



section \<open>provider\_otlp.go: spans\<close>

text \<open>The loop \<open>for k, v := range config.Attributes { attrs = append(attrs, toAttribute(k, v)) }\<close>.\<close>

fun convert_attributes ::
  "(go_value \<Rightarrow> string) \<Rightarrow> (string, go_value) gomap \<Rightarrow> KeyValue list \<Rightarrow> KeyValue list" where
  "convert_attributes sprintf_v [] attrs = attrs"
| "convert_attributes sprintf_v ((k, v) # rest) attrs =
     convert_attributes sprintf_v rest (attrs @ [toAttribute sprintf_v k v])"

definition convert_kind :: "SpanKind \<Rightarrow> otel_kind" where
  "convert_kind kind =
     (if kind = SpanKindInternal then OtelInternal
      else if kind = SpanKindServer then OtelServer
      else if kind = SpanKindClient then OtelClient
      else if kind = SpanKindProducer then OtelProducer
      else if kind = SpanKindConsumer then OtelConsumer
      else OtelInternal)"

definition otlpProvider_Start ::
  "Time \<Rightarrow> (go_value \<Rightarrow> string) \<Rightarrow> world \<Rightarrow> Context \<Rightarrow> string \<Rightarrow> SpanOption list
     \<Rightarrow> world \<times> Context \<times> Span" where
  "otlpProvider_Start now sprintf_v w ctx operationName opts =
     (let config = applySpanOptions now opts;
          otelKind = convert_kind (Kind config);
          attrs = convert_attributes sprintf_v
                    (case Attributes config of None \<Rightarrow> [] | Some m \<Rightarrow> m) [];
          spanOpts = [trace_WithSpanKind otelKind, trace_WithAttributes attrs]
                     @ (if \<not> IsZero (Timestamp config)
                        then [trace_WithTimestamp (Timestamp config)] else []);
          (w1, ctx1, otelSpan) = tracer_Start w ctx operationName spanOpts;
          span = OtlpSpanPtr (length (otlpSpans w1));
          w2 = w1\<lparr>otlpSpans := otlpSpans w1 @ [\<lparr>otlpSpan_span = otelSpan, otlpSpan_ctx = ctx1\<rparr>]\<rparr>
      in (w2, ContextWithSpan ctx1 (Some span), span))"

definition otlpSpan_at :: "world \<Rightarrow> addr \<Rightarrow> panic + otlpSpan" where
  "otlpSpan_at w s =
     (if s < length (otlpSpans w) then Inr (otlpSpans w ! s) else Inl NilPointerDereference)"





definition otlpSpan_Context :: "world \<Rightarrow> addr \<Rightarrow> panic + Context" where
  "otlpSpan_Context w s =
     (case otlpSpan_at w s of Inl p \<Rightarrow> Inl p | Inr sp \<Rightarrow> Inr (otlpSpan_ctx sp))"

section \<open>The \<open>Span\<close> interface\<close>





fun Span_Context :: "world \<Rightarrow> Span \<Rightarrow> panic + Context" where
  "Span_Context w (NoopSpanPtr s) = noopSpan_Context w s"
| "Span_Context w (OtlpSpanPtr s) = otlpSpan_Context w s"



definition allocated :: "world \<Rightarrow> Span \<Rightarrow> bool" where
  "allocated w span =
     (case span of NoopSpanPtr a \<Rightarrow> a < length (noopSpans w)
                 | OtlpSpanPtr a \<Rightarrow> a < length (otlpSpans w))"

section \<open>provider\_otlp.go: Extract and Inject\<close>

text \<open>
  The carrier argument has type \<open>any\<close>.  Its dynamic type either implements the
  SDK's \<open>propagation.TextMapCarrier\<close>, or is exactly \<open>map[string]string\<close>, or is
  exactly \<open>map[string][]string\<close>, or is something else: \<open>CarrierOther T\<close> is a
  value (the nil interface included) whose dynamic type, as \<open>%T\<close> prints it, is \<open>T\<close>
  and is none of the former.  A defined type such as \<open>http.Header\<close> is not the map
  type it is defined from, and it has no \<open>Keys\<close> method, so it is of the last sort.

  A \<open>TextMapCarrier\<close> is the SDK's \<open>MapCarrier\<close> over a string map, a pointer to
  the shim of this module, or an implementation from elsewhere.
\<close>

datatype TextMapCarrier =
    MapCarrier "(string, string) gomap option"
  | HeaderCarrierPtr headerCarrier
  | ForeignCarrier string

datatype carrier =
    CarrierTextMap TextMapCarrier
  | CarrierMapStringString "(string, string) gomap option"
  | CarrierMapStringStrings "(string, string list) gomap option"
  | CarrierOther string

text \<open>What the verb \<open>%T\<close> prints for a carrier.\<close>

fun type_name :: "carrier \<Rightarrow> string" where
  "type_name (CarrierTextMap (MapCarrier m)) = ''propagation.MapCarrier''"
| "type_name (CarrierTextMap (HeaderCarrierPtr c)) = ''*tracingx.headerCarrier''"
| "type_name (CarrierTextMap (ForeignCarrier T)) = T"
| "type_name (CarrierMapStringString m) = ''map[string]string''"
| "type_name (CarrierMapStringStrings m) = ''map[string][]string''"
| "type_name (CarrierOther T) = T"

text \<open>
  The propagator is the process-wide one of the SDK.  \<open>propagator_Extract\<close> is its
  \<open>Extract\<close>; \<open>propagator_Inject\<close> is its \<open>Inject\<close>, returning the carrier as the
  call leaves it.  \<open>otlpProvider_Inject\<close> returns that carrier (nothing when the
  propagator was not called) next to the error.
\<close>

definition otlpProvider_Extract ::
  "(Context \<Rightarrow> TextMapCarrier \<Rightarrow> Context) \<Rightarrow> Context \<Rightarrow> carrier \<Rightarrow> Context \<times> error option" where
  "otlpProvider_Extract propagator_Extract ctx carrier =
     (case carrier of
        CarrierTextMap c \<Rightarrow> (propagator_Extract ctx c, None)
      | CarrierMapStringString c \<Rightarrow> (propagator_Extract ctx (MapCarrier c), None)
      | CarrierMapStringStrings c \<Rightarrow>
          (propagator_Extract ctx (HeaderCarrierPtr \<lparr>headers = c\<rparr>), None)
      | CarrierOther T \<Rightarrow>
          (ctx, Some (ErrorNew (''unsupported carrier type: '' @ type_name carrier))))"

definition otlpProvider_Inject ::
  "(Context \<Rightarrow> TextMapCarrier \<Rightarrow> TextMapCarrier) \<Rightarrow> Context \<Rightarrow> carrier
     \<Rightarrow> TextMapCarrier option \<times> error option" where
  "otlpProvider_Inject propagator_Inject ctx carrier =
     (case carrier of
        CarrierTextMap c \<Rightarrow> (Some (propagator_Inject ctx c), None)
      | CarrierMapStringString c \<Rightarrow> (Some (propagator_Inject ctx (MapCarrier c)), None)
      | CarrierMapStringStrings c \<Rightarrow>
          (Some (propagator_Inject ctx (HeaderCarrierPtr \<lparr>headers = c\<rparr>)), None)
      | CarrierOther T \<Rightarrow>
          (None, Some (ErrorNew (''unsupported carrier type: '' @ type_name carrier))))"

definition supported_carrier :: "carrier \<Rightarrow> bool" where
  "supported_carrier carrier =
     (case carrier of CarrierOther T \<Rightarrow> False | _ \<Rightarrow> True)"

section \<open>config.go\<close>

text \<open>
  The header map of the configuration is shared by every copy of the struct, so the
  string maps live in a store and \<open>Headers\<close> holds a reference (an index into the
  store), or nil.  \<open>make\<close> allocates an empty map at the end of the store.  A
  reference held by a configuration always points into the store.

  \<open>SampleRate\<close> is a \<open>float64\<close>, kept as its bit pattern.
\<close>

type_synonym map_ref = nat

type_synonym map_store = "(string, string) gomap list"

record JaegerConfig =
  Jaeger_Endpoint :: string
  AgentHost :: string
  AgentPort :: string

record OTLPConfig =
  Endpoint :: string
  Insecure :: bool
  Headers :: "map_ref option"

record Config =
  Enabled :: bool
  ServiceName :: string
  Provider :: string
  SampleRate :: "64 word"
  OTLP :: OTLPConfig
  Jaeger :: JaegerConfig

text \<open>The zero value of \<open>Config\<close>, as \<open>var cfg Config\<close> declares it.\<close>

definition zeroConfig :: Config where
  "zeroConfig =
     \<lparr>Enabled = False, ServiceName = '''', Provider = '''', SampleRate = 0,
      OTLP = \<lparr>Endpoint = '''', Insecure = False, Headers = None\<rparr>,
      Jaeger = \<lparr>Jaeger_Endpoint = '''', AgentHost = '''', AgentPort = ''''\<rparr>\<rparr>"

text \<open>
  Reading \<open>c.OTLP.Headers[k]\<close> and \<open>len(c.OTLP.Headers)\<close>; a nil map reads as an
  empty one.
\<close>

definition header_entries :: "map_store \<Rightarrow> Config \<Rightarrow> (string, string) gomap" where
  "header_entries st c = (case Headers (OTLP c) of None \<Rightarrow> [] | Some r \<Rightarrow> st ! r)"


text \<open>
  \<open>strings.ToLower\<close> on ASCII text, which is what header keys are: the letters
  \<open>A\<close> to \<open>Z\<close> move to \<open>a\<close> to \<open>z\<close>, every other byte stays.
  \<open>strings.HasPrefix\<close> and \<open>strings.Contains\<close> compare bytes.
\<close>

definition lower_byte :: "char \<Rightarrow> char" where
  "lower_byte c =
     (case map_of (zip ''ABCDEFGHIJKLMNOPQRSTUVWXYZ'' ''abcdefghijklmnopqrstuvwxyz'') c of
        Some l \<Rightarrow> l
      | None \<Rightarrow> c)"

definition ToLower :: "string \<Rightarrow> string" where
  "ToLower s = map lower_byte s"

fun HasPrefix :: "string \<Rightarrow> string \<Rightarrow> bool" where
  "HasPrefix s [] = True"
| "HasPrefix [] (p # ps) = False"
| "HasPrefix (c # cs) (p # ps) = (c = p \<and> HasPrefix cs ps)"

fun Contains :: "string \<Rightarrow> string \<Rightarrow> bool" where
  "Contains [] substr = (substr = [])"
| "Contains (c # cs) substr = (HasPrefix (c # cs) substr \<or> Contains cs substr)"

text \<open>
  \<open>Config.Sanitize\<close>, from the revision of config.go that defines it.  The loop
  ranges over the receiver's map and writes into the map \<open>out\<close> made for the copy.
\<close>

fun redact_headers :: "(string, string) gomap \<Rightarrow> map_ref \<Rightarrow> map_store \<Rightarrow> map_store" where
  "redact_headers [] out st = st"
| "redact_headers ((k, v) # rest) out st =
     (let lk = ToLower k
      in if Contains lk ''token'' \<or> Contains lk ''key'' \<or> Contains lk ''secret''
            \<or> Contains lk ''authorization''
         then redact_headers rest out (st[out := AList.update k ''[redacted]'' (st ! out)])
         else redact_headers rest out (st[out := AList.update k v (st ! out)]))"

definition Sanitize :: "map_store \<Rightarrow> Config \<Rightarrow> map_store \<times> Config" where
  "Sanitize st c =
     (case Headers (OTLP c) of
        None \<Rightarrow> (st, c)
      | Some r \<Rightarrow>
          (let out = length st
           in (redact_headers (st ! r) out (st @ [[]]),
               c\<lparr>OTLP := (OTLP c)\<lparr>Headers := Some out\<rparr>\<rparr>)))"

text \<open>The test of the loop on a lower-cased key, and the same test on the key as it is.\<close>

definition sensitive :: "string \<Rightarrow> bool" where
  "sensitive lk =
     (Contains lk ''token'' \<or> Contains lk ''key'' \<or> Contains lk ''secret''
      \<or> Contains lk ''authorization'')"

text \<open>What the loop of \<open>Sanitize\<close> stores for one entry of the receiver's map.\<close>

definition redacted_entry :: "string \<times> string \<Rightarrow> string \<times> string" where
  "redacted_entry e = (fst e, if sensitive (ToLower (fst e)) then ''[redacted]'' else snd e)"

text \<open>
  \<open>NewConfig\<close> of config.go.  The loader of the configuration library is a parameter:
  \<open>Bind\<close> fills the configuration it is handed (allocating the header map in the
  store) and returns an error or nil.
\<close>

type_synonym Loader = "map_store \<Rightarrow> Config \<Rightarrow> map_store \<times> Config \<times> error option"

definition NewConfig :: "Loader \<Rightarrow> map_store \<Rightarrow> map_store \<times> Config \<times> error option" where
  "NewConfig loader_Bind st =
     (case loader_Bind st zeroConfig of
        (st', cfg, Some err) \<Rightarrow> (st', cfg, Some err)
      | (st', cfg, None) \<Rightarrow> (st', cfg, None))"

text \<open>
  The earlier revision of \<open>NewConfig\<close>, kept beside the release scripts, which
  returned \<open>cfg.Sanitize()\<close>.
\<close>

definition NewConfig_sanitizing :: "Loader \<Rightarrow> map_store \<Rightarrow> map_store \<times> Config \<times> error option" where
  "NewConfig_sanitizing loader_Bind st =
     (case loader_Bind st zeroConfig of
        (st', cfg, Some err) \<Rightarrow> (st', cfg, Some err)
      | (st', cfg, None) \<Rightarrow> (case Sanitize st' cfg of (st'', out) \<Rightarrow> (st'', out, None)))"

section \<open>Provider construction and selection\<close>

text \<open>
  The logger and the process-wide registrations of the SDK are state of the process:
  what was logged, the tracer provider and the propagator installed as defaults, and
  the option lists with which an exporter was requested.
\<close>

datatype log_level = Info | Warn

record log_entry =
  level :: log_level
  message :: string
  log_fields :: "(string \<times> string) list"

datatype exporter_option =
    otlptracegrpc_WithEndpoint string
  | otlptracegrpc_WithTLSCredentials_insecure
  | otlptracegrpc_WithHeaders "(string, string) gomap"

record TracerProvider =
  tp_exporter :: nat
  tp_resource :: nat
  tp_sample_ratio :: "64 word"

record process =
  logged :: "log_entry list"
  otel_TracerProvider :: "TracerProvider option"
  otel_TextMapPropagator :: "string list"
  exporter_requests :: "exporter_option list list"

definition logger_Info :: "process \<Rightarrow> string \<Rightarrow> (string \<times> string) list \<Rightarrow> process" where
  "logger_Info p msg flds = p\<lparr>logged := logged p @ [\<lparr>level = Info, message = msg, log_fields = flds\<rparr>]\<rparr>"

definition logger_Warn :: "process \<Rightarrow> string \<Rightarrow> (string \<times> string) list \<Rightarrow> process" where
  "logger_Warn p msg flds = p\<lparr>logged := logged p @ [\<lparr>level = Warn, message = msg, log_fields = flds\<rparr>]\<rparr>"

text \<open>
  A \<open>Provider\<close> is a pointer to a \<open>noopProvider\<close>, which has no fields, or to an
  \<open>otlpProvider\<close> with its configuration and tracer provider.
\<close>

datatype Provider = NoopProvider | OtlpProvider Config TracerProvider

definition newNoopProvider :: Provider where
  "newNoopProvider = NoopProvider"

text \<open>The options \<open>newOTLPProvider\<close> collects for \<open>otlptracegrpc.New\<close>.\<close>

definition exporter_options :: "map_store \<Rightarrow> Config \<Rightarrow> exporter_option list" where
  "exporter_options st config =
     (let opts = [otlptracegrpc_WithEndpoint (Endpoint (OTLP config))];
          opts = (if Insecure (OTLP config)
                  then opts @ [otlptracegrpc_WithTLSCredentials_insecure] else opts);
          opts = (if length (header_entries st config) > 0
                  then opts @ [otlptracegrpc_WithHeaders (header_entries st config)] else opts)
      in opts)"

text \<open>
  \<open>otlptracegrpc.New\<close> and \<open>resource.New\<close> of the SDK are the parameters
  \<open>exporter_New\<close> and \<open>resource_New\<close>: each returns an error or a handle.
\<close>

definition newOTLPProvider ::
  "(exporter_option list \<Rightarrow> error + nat) \<Rightarrow> (string \<Rightarrow> error + nat) \<Rightarrow> map_store \<Rightarrow> process
     \<Rightarrow> Config \<Rightarrow> process \<times> Provider option \<times> error option" where
  "newOTLPProvider exporter_New resource_New st p config =
     (let opts = exporter_options st config;
          p1 = p\<lparr>exporter_requests := exporter_requests p @ [opts]\<rparr>
      in case exporter_New opts of
           Inl err \<Rightarrow> (p1, None, Some (ErrorWrap ''failed to create OTLP exporter: '' err))
         | Inr exporter \<Rightarrow>
             (case resource_New (ServiceName config) of
                Inl err \<Rightarrow> (p1, None, Some (ErrorWrap ''failed to create resource: '' err))
              | Inr res \<Rightarrow>
                  (let tp = \<lparr>tp_exporter = exporter, tp_resource = res,
                             tp_sample_ratio = SampleRate config\<rparr>;
                       p2 = p1\<lparr>otel_TracerProvider := Some tp\<rparr>;
                       p3 = p2\<lparr>otel_TextMapPropagator := [''tracecontext'', ''baggage'']\<rparr>;
                       p4 = logger_Info p3 ''OTLP tracing provider initialized''
                              [(''endpoint'', Endpoint (OTLP config)),
                               (''service'', ServiceName config)]
                   in (p4, Some (OtlpProvider config tp), None))))"

record Result =
  Result_Tracer :: "Provider option"
  Result_Provider :: "Provider option"

definition NewTracer ::
  "(exporter_option list \<Rightarrow> error + nat) \<Rightarrow> (string \<Rightarrow> error + nat) \<Rightarrow> map_store \<Rightarrow> process
     \<Rightarrow> Config \<Rightarrow> process \<times> Result \<times> error option" where
  "NewTracer exporter_New resource_New st p config =
     (if \<not> Enabled config
      then (let p1 = logger_Info p ''tracing is disabled, using noop tracer'' [];
                provider = newNoopProvider
            in (p1, \<lparr>Result_Tracer = Some provider, Result_Provider = Some provider\<rparr>, None))
      else
        (let (p1, provider, err) =
               (if Provider config = ''otlp''
                then newOTLPProvider exporter_New resource_New st p config
                else if Provider config = ''noop''
                then (p, Some newNoopProvider, None)
                else (logger_Warn p ''unknown tracing provider, using noop''
                        [(''provider'', Provider config)],
                      Some newNoopProvider, None))
         in if err \<noteq> None
            then (p1, \<lparr>Result_Tracer = None, Result_Provider = None\<rparr>, err)
            else (p1, \<lparr>Result_Tracer = provider, Result_Provider = provider\<rparr>, None)))"

section \<open>Properties of the span option builder\<close>












section \<open>Properties of the attribute conversion\<close>

lemma toAttribute_Key: "Key (toAttribute sprintf_v key v) = key"
  by (cases v)
     (simp_all add: attribute_String_def attribute_Int_def attribute_Int64_def
        attribute_Float64_def attribute_Bool_def attribute_StringSlice_def attribute_IntSlice_def
        attribute_Int64Slice_def attribute_Float64Slice_def attribute_BoolSlice_def)

text \<open>
  C3.  For every key and value the attribute made by \<open>toAttribute\<close> has the input key.
  A string, int, int64, float64 or bool, and a slice of one of these, becomes the SDK
  attribute of that type holding the same value (the SDK stores \<open>int\<close> as \<open>int64\<close>);
  a value of any other dynamic type, the nil interface included, becomes the string
  attribute holding its \<open>%v\<close> formatting.
\<close>

theorem toAttribute_dispatch:
  "Key (toAttribute sprintf_v key v) = key
   \<and> Value (toAttribute sprintf_v key (VString s)) = StringValue s
   \<and> Value (toAttribute sprintf_v key (VInt i)) = Int64Value i
   \<and> Value (toAttribute sprintf_v key (VInt64 i)) = Int64Value i
   \<and> Value (toAttribute sprintf_v key (VFloat64 f)) = Float64Value f
   \<and> Value (toAttribute sprintf_v key (VBool b)) = BoolValue b
   \<and> Value (toAttribute sprintf_v key (VStringSlice ss)) = StringSliceValue ss
   \<and> Value (toAttribute sprintf_v key (VIntSlice js)) = Int64SliceValue js
   \<and> Value (toAttribute sprintf_v key (VInt64Slice js)) = Int64SliceValue js
   \<and> Value (toAttribute sprintf_v key (VFloat64Slice fs)) = Float64SliceValue fs
   \<and> Value (toAttribute sprintf_v key (VBoolSlice bs)) = BoolSliceValue bs
   \<and> Value (toAttribute sprintf_v key (VOther T p)) = StringValue (sprintf_v (VOther T p))
   \<and> Value (toAttribute sprintf_v key VNil) = StringValue (sprintf_v VNil)"
  by (simp add: toAttribute_Key attribute_String_def attribute_Int_def attribute_Int64_def
        attribute_Float64_def attribute_Bool_def attribute_StringSlice_def attribute_IntSlice_def
        attribute_Int64Slice_def attribute_Float64Slice_def attribute_BoolSlice_def)

lemma toAttribute_http_method:
  "toAttribute sprintf_v ''http.method'' (VString ''GET'') =
     \<lparr>Key = ''http.method'', Value = StringValue ''GET''\<rparr>"
  by (simp add: attribute_String_def)

section \<open>Properties of the carrier shim\<close>



lemma headerCarrier_nil_map:
  "Get \<lparr>headers = None\<rparr> key = '''' \<and> Keys \<lparr>headers = None\<rparr> = []
   \<and> Set \<lparr>headers = None\<rparr> key val = Inl AssignmentToNilMap"
  by (simp add: Get_def Keys_def Set_def)



section \<open>Properties of contexts and of the no-op provider\<close>

lemma SpanFromContext_ContextWithSpan: "SpanFromContext (ContextWithSpan ctx s) = s"
  by (cases s) (simp_all add: SpanFromContext_def ContextWithSpan_def)

lemma Value_of_no_entry: "\<not> has_span_entry ctx \<Longrightarrow> Value_of ctx spanContextKey = None"
  by (induction ctx) auto

lemma SpanFromContext_no_entry: "\<not> has_span_entry ctx \<Longrightarrow> SpanFromContext ctx = None"
  by (simp add: SpanFromContext_def Value_of_no_entry)

lemma WithValue_neq: "WithValue ctx k v \<noteq> ctx"
  by (induction ctx) auto

lemma SpanFromContext_sdk_entry:
  "SpanFromContext (WithValue ctx currentSpanKey v) = SpanFromContext ctx"
  by (simp add: SpanFromContext_def)

lemma noopProvider_Start_eq:
  "noopProvider_Start w ctx name opts =
     (w\<lparr>noopSpans := noopSpans w @ [\<lparr>noopSpan_ctx = ctx\<rparr>]\<rparr>,
      ContextWithSpan ctx (Some (NoopSpanPtr (length (noopSpans w)))),
      NoopSpanPtr (length (noopSpans w)))"
  by (simp add: noopProvider_Start_def Let_def)

lemma otlpProvider_Start_shape:
  "\<exists>spanOpts.
     otlpProvider_Start now sprintf_v w ctx name opts =
       (w\<lparr>sdk_calls := sdk_calls w @ [TracerStart ctx name spanOpts],
          sdk_spans := sdk_spans w + 1,
          otlpSpans := otlpSpans w @
            [\<lparr>otlpSpan_span = sdk_spans w,
              otlpSpan_ctx = WithValue ctx currentSpanKey (OtelSpanValue (sdk_spans w))\<rparr>]\<rparr>,
        ContextWithSpan (WithValue ctx currentSpanKey (OtelSpanValue (sdk_spans w)))
          (Some (OtlpSpanPtr (length (otlpSpans w)))),
        OtlpSpanPtr (length (otlpSpans w)))"
  by (auto simp add: otlpProvider_Start_def tracer_Start_def Let_def intro!: exI)


lemma ContextWithSpan_neq: "ContextWithSpan ctx s \<noteq> ctx" "ctx \<noteq> ContextWithSpan ctx s"
  using WithValue_neq [of ctx spanContextKey "SpanValue s"]
  by (auto simp: ContextWithSpan_def)

text \<open>
  C5.  Reading the span back from a context to which it was just attached returns that
  span, for every context and every span (the nil span included), and a context with no
  entry under the span key yields nil.  Hence the context returned by \<open>Start\<close> of
  either provider yields the span returned with it.  A second \<open>Start\<close> on that
  context returns a context that yields the child span, which is another span than the
  parent; the parent context is the tail of the child context, so its own entry is
  still there and it still yields the parent span.
\<close>

theorem SpanFromContext_roundtrip:
  "SpanFromContext (ContextWithSpan ctx s) = s
   \<and> (\<not> has_span_entry ctx \<longrightarrow> SpanFromContext ctx = None)
   \<and> SpanFromContext Background = None
   \<and> (case noopProvider_Start w ctx name1 opts1 of
        (w1, pctx, pspan) \<Rightarrow>
          SpanFromContext pctx = Some pspan
          \<and> (case noopProvider_Start w1 pctx name2 opts2 of
               (w2, cctx, cspan) \<Rightarrow>
                 SpanFromContext cctx = Some cspan \<and> cspan \<noteq> pspan
                 \<and> cctx = WithValue pctx spanContextKey (SpanValue (Some cspan))
                 \<and> SpanFromContext pctx = Some pspan))
   \<and> (case otlpProvider_Start now1 sprintf_v w ctx name1 opts1 of
        (w1, pctx, pspan) \<Rightarrow>
          SpanFromContext pctx = Some pspan
          \<and> (case otlpProvider_Start now2 sprintf_v w1 pctx name2 opts2 of
               (w2, cctx, cspan) \<Rightarrow>
                 SpanFromContext cctx = Some cspan \<and> cspan \<noteq> pspan
                 \<and> (\<exists>h. cctx = WithValue (WithValue pctx currentSpanKey (OtelSpanValue h))
                                  spanContextKey (SpanValue (Some cspan)))
                 \<and> SpanFromContext pctx = Some pspan))"
proof -
  have noop: "case noopProvider_Start w ctx name1 opts1 of
        (w1, pctx, pspan) \<Rightarrow>
          SpanFromContext pctx = Some pspan
          \<and> (case noopProvider_Start w1 pctx name2 opts2 of
               (w2, cctx, cspan) \<Rightarrow>
                 SpanFromContext cctx = Some cspan \<and> cspan \<noteq> pspan
                 \<and> cctx = WithValue pctx spanContextKey (SpanValue (Some cspan))
                 \<and> SpanFromContext pctx = Some pspan)"
    by (simp add: noopProvider_Start_eq SpanFromContext_ContextWithSpan)
       (simp add: ContextWithSpan_def)
  obtain so1 where s1: "otlpProvider_Start now1 sprintf_v w ctx name1 opts1 =
       (w\<lparr>sdk_calls := sdk_calls w @ [TracerStart ctx name1 so1],
          sdk_spans := sdk_spans w + 1,
          otlpSpans := otlpSpans w @
            [\<lparr>otlpSpan_span = sdk_spans w,
              otlpSpan_ctx = WithValue ctx currentSpanKey (OtelSpanValue (sdk_spans w))\<rparr>]\<rparr>,
        ContextWithSpan (WithValue ctx currentSpanKey (OtelSpanValue (sdk_spans w)))
          (Some (OtlpSpanPtr (length (otlpSpans w)))),
        OtlpSpanPtr (length (otlpSpans w)))"
    using otlpProvider_Start_shape by blast
  have otlp: "case otlpProvider_Start now1 sprintf_v w ctx name1 opts1 of
        (w1, pctx, pspan) \<Rightarrow>
          SpanFromContext pctx = Some pspan
          \<and> (case otlpProvider_Start now2 sprintf_v w1 pctx name2 opts2 of
               (w2, cctx, cspan) \<Rightarrow>
                 SpanFromContext cctx = Some cspan \<and> cspan \<noteq> pspan
                 \<and> (\<exists>h. cctx = WithValue (WithValue pctx currentSpanKey (OtelSpanValue h))
                                  spanContextKey (SpanValue (Some cspan)))
                 \<and> SpanFromContext pctx = Some pspan)"
  proof -
    let ?w1 = "w\<lparr>sdk_calls := sdk_calls w @ [TracerStart ctx name1 so1],
          sdk_spans := sdk_spans w + 1,
          otlpSpans := otlpSpans w @
            [\<lparr>otlpSpan_span = sdk_spans w,
              otlpSpan_ctx = WithValue ctx currentSpanKey (OtelSpanValue (sdk_spans w))\<rparr>]\<rparr>"
    let ?pctx = "ContextWithSpan (WithValue ctx currentSpanKey (OtelSpanValue (sdk_spans w)))
          (Some (OtlpSpanPtr (length (otlpSpans w))))"
    obtain so2 where s2: "otlpProvider_Start now2 sprintf_v ?w1 ?pctx name2 opts2 =
       (?w1\<lparr>sdk_calls := sdk_calls ?w1 @ [TracerStart ?pctx name2 so2],
          sdk_spans := sdk_spans ?w1 + 1,
          otlpSpans := otlpSpans ?w1 @
            [\<lparr>otlpSpan_span = sdk_spans ?w1,
              otlpSpan_ctx = WithValue ?pctx currentSpanKey (OtelSpanValue (sdk_spans ?w1))\<rparr>]\<rparr>,
        ContextWithSpan (WithValue ?pctx currentSpanKey (OtelSpanValue (sdk_spans ?w1)))
          (Some (OtlpSpanPtr (length (otlpSpans ?w1)))),
        OtlpSpanPtr (length (otlpSpans ?w1)))"
      using otlpProvider_Start_shape by blast
    show ?thesis
      unfolding s1 prod.case s2
      by (simp add: SpanFromContext_ContextWithSpan) (simp add: ContextWithSpan_def)
  qed
  from SpanFromContext_ContextWithSpan [of ctx s] SpanFromContext_no_entry [of ctx]
    SpanFromContext_no_entry [of Background] noop otlp
  show ?thesis by simp
qed

theorem SpanFromContext_roundtrip_witness:
  "\<not> has_span_entry (WithValue Background (otherKey ''user'') (OtherValue ''u''))
   \<and> SpanFromContext (WithValue Background (otherKey ''user'') (OtherValue ''u'')) = None
   \<and> SpanFromContext (ContextWithSpan
        (WithValue Background (otherKey ''user'') (OtherValue ''u'')) (Some (NoopSpanPtr 0)))
       = Some (NoopSpanPtr 0)"
  using SpanFromContext_roundtrip
    [where ctx = "WithValue Background (otherKey ''user'') (OtherValue ''u'')"
       and s = "Some (NoopSpanPtr 0)"]
  by simp

text \<open>
  C10.  The context stored in a span is the one from before the span was attached.  For
  the no-op provider it is the \<open>ctx\<close> argument of \<open>Start\<close>; for the pass-through
  provider it is the context the SDK's tracer returned.  In both cases the context
  returned by \<open>Start\<close> is that context with the span attached, hence a different
  context, and looking the span up in \<open>span.Context()\<close> gives what the lookup in the
  input context gives: never the new span, when the span attached to the input context
  (if any) is one that exists already.
\<close>

theorem Span_Context_precedes_attachment:
  "(case noopProvider_Start w ctx name opts of
      (w', ctx', span) \<Rightarrow>
        Span_Context w' span = Inr ctx
        \<and> ctx' = ContextWithSpan ctx (Some span)
        \<and> Span_Context w' span \<noteq> Inr ctx'
        \<and> SpanFromContext ctx' = Some span
        \<and> ((\<forall>s. SpanFromContext ctx = Some s \<longrightarrow> allocated w s) \<longrightarrow>
             SpanFromContext ctx \<noteq> Some span))
   \<and> (case otlpProvider_Start now sprintf_v w ctx name opts of
      (w', ctx', span) \<Rightarrow>
        (\<exists>ctx1 h. Span_Context w' span = Inr ctx1
           \<and> ctx1 = WithValue ctx currentSpanKey (OtelSpanValue h)
           \<and> ctx' = ContextWithSpan ctx1 (Some span)
           \<and> ctx1 \<noteq> ctx'
           \<and> SpanFromContext ctx' = Some span
           \<and> SpanFromContext ctx1 = SpanFromContext ctx
           \<and> ((\<forall>s. SpanFromContext ctx = Some s \<longrightarrow> allocated w s) \<longrightarrow>
                SpanFromContext ctx1 \<noteq> Some span)))"
proof -
  have fresh_noop: "(\<forall>s. SpanFromContext ctx = Some s \<longrightarrow> allocated w s) \<longrightarrow>
      SpanFromContext ctx \<noteq> Some (NoopSpanPtr (length (noopSpans w)))"
    by (auto simp: allocated_def)
  have fresh_otlp: "(\<forall>s. SpanFromContext ctx = Some s \<longrightarrow> allocated w s) \<longrightarrow>
      SpanFromContext ctx \<noteq> Some (OtlpSpanPtr (length (otlpSpans w)))"
    by (auto simp: allocated_def)
  have noop: "case noopProvider_Start w ctx name opts of
      (w', ctx', span) \<Rightarrow>
        Span_Context w' span = Inr ctx
        \<and> ctx' = ContextWithSpan ctx (Some span)
        \<and> Span_Context w' span \<noteq> Inr ctx'
        \<and> SpanFromContext ctx' = Some span
        \<and> ((\<forall>s. SpanFromContext ctx = Some s \<longrightarrow> allocated w s) \<longrightarrow>
             SpanFromContext ctx \<noteq> Some span)"
    using fresh_noop
    by (simp add: noopProvider_Start_eq noopSpan_Context_def SpanFromContext_ContextWithSpan
          ContextWithSpan_neq)
  obtain so where s: "otlpProvider_Start now sprintf_v w ctx name opts =
       (w\<lparr>sdk_calls := sdk_calls w @ [TracerStart ctx name so],
          sdk_spans := sdk_spans w + 1,
          otlpSpans := otlpSpans w @
            [\<lparr>otlpSpan_span = sdk_spans w,
              otlpSpan_ctx = WithValue ctx currentSpanKey (OtelSpanValue (sdk_spans w))\<rparr>]\<rparr>,
        ContextWithSpan (WithValue ctx currentSpanKey (OtelSpanValue (sdk_spans w)))
          (Some (OtlpSpanPtr (length (otlpSpans w)))),
        OtlpSpanPtr (length (otlpSpans w)))"
    using otlpProvider_Start_shape by blast
  have otlp: "case otlpProvider_Start now sprintf_v w ctx name opts of
      (w', ctx', span) \<Rightarrow>
        (\<exists>ctx1 h. Span_Context w' span = Inr ctx1
           \<and> ctx1 = WithValue ctx currentSpanKey (OtelSpanValue h)
           \<and> ctx' = ContextWithSpan ctx1 (Some span)
           \<and> ctx1 \<noteq> ctx'
           \<and> SpanFromContext ctx' = Some span
           \<and> SpanFromContext ctx1 = SpanFromContext ctx
           \<and> ((\<forall>s. SpanFromContext ctx = Some s \<longrightarrow> allocated w s) \<longrightarrow>
                SpanFromContext ctx1 \<noteq> Some span))"
    unfolding s prod.case
    using fresh_otlp
    by (simp add: otlpSpan_Context_def otlpSpan_at_def SpanFromContext_ContextWithSpan
          SpanFromContext_sdk_entry ContextWithSpan_neq)
  from noop otlp show ?thesis by simp
qed

theorem Span_Context_precedes_attachment_witness:
  "SpanFromContext (ContextWithSpan Background (Some (NoopSpanPtr 0))) = Some (NoopSpanPtr 0)
   \<and> allocated \<lparr>noopSpans = [\<lparr>noopSpan_ctx = Background\<rparr>], otlpSpans = [],
                  sdk_calls = [], sdk_spans = 0\<rparr> (NoopSpanPtr 0)
   \<and> (case noopProvider_Start
           \<lparr>noopSpans = [\<lparr>noopSpan_ctx = Background\<rparr>], otlpSpans = [],
             sdk_calls = [], sdk_spans = 0\<rparr>
           (ContextWithSpan Background (Some (NoopSpanPtr 0))) ''child'' [] of
        (w', ctx', span) \<Rightarrow>
          span = NoopSpanPtr 1
          \<and> Span_Context w' span = Inr (ContextWithSpan Background (Some (NoopSpanPtr 0)))
          \<and> SpanFromContext (ContextWithSpan Background (Some (NoopSpanPtr 0))) \<noteq> Some span)
   \<and> (case otlpProvider_Start 7 (\<lambda>v. ''?'')
           \<lparr>noopSpans = [\<lparr>noopSpan_ctx = Background\<rparr>], otlpSpans = [],
             sdk_calls = [], sdk_spans = 0\<rparr>
           (ContextWithSpan Background (Some (NoopSpanPtr 0))) ''child'' [] of
        (w', ctx', span) \<Rightarrow>
          span = OtlpSpanPtr 0
          \<and> Span_Context w' span =
                Inr (WithValue (ContextWithSpan Background (Some (NoopSpanPtr 0)))
                       currentSpanKey (OtelSpanValue 0))
          \<and> SpanFromContext (WithValue (ContextWithSpan Background (Some (NoopSpanPtr 0)))
                       currentSpanKey (OtelSpanValue 0)) = Some (NoopSpanPtr 0)
          \<and> SpanFromContext ctx' = Some span)"
  using Span_Context_precedes_attachment
    [where w = "\<lparr>noopSpans = [\<lparr>noopSpan_ctx = Background\<rparr>], otlpSpans = [],
                   sdk_calls = [], sdk_spans = 0\<rparr>"
       and ctx = "ContextWithSpan Background (Some (NoopSpanPtr 0))"
       and name = "''child''" and opts = "[]" and now = 7 and sprintf_v = "\<lambda>v. ''?''"]
  by (simp add: noopProvider_Start_eq SpanFromContext_ContextWithSpan allocated_def
        otlpProvider_Start_def tracer_Start_def Let_def otlpSpan_Context_def otlpSpan_at_def
        SpanFromContext_sdk_entry)

section \<open>Properties of Extract and Inject of the pass-through provider\<close>

lemma otlpProvider_rejects_http_Header:
  "otlpProvider_Extract pe ctx (CarrierOther ''http.Header'') =
     (ctx, Some (ErrorNew ''unsupported carrier type: http.Header''))
   \<and> otlpProvider_Inject pi ctx (CarrierOther ''http.Header'') =
     (None, Some (ErrorNew ''unsupported carrier type: http.Header''))"
  by (simp add: otlpProvider_Extract_def otlpProvider_Inject_def)

text \<open>
  C6.  \<open>Extract\<close> and \<open>Inject\<close> of the pass-through provider hand a native
  \<open>TextMapCarrier\<close> to the propagator as it is, a \<open>map[string]string\<close> as a
  \<open>MapCarrier\<close> and a \<open>map[string][]string\<close> behind the shim, and return no error
  of their own in these three cases.  For a carrier of any other type the propagator is
  not called: the error message is \<open>unsupported carrier type: \<close> followed by the name
  of the carrier's type, and \<open>Extract\<close> returns the context it was given.  So the
  returned error is nil exactly for the three supported shapes.
\<close>

theorem otlpProvider_carrier_types:
  "otlpProvider_Extract pe ctx (CarrierTextMap c) = (pe ctx c, None)
   \<and> otlpProvider_Extract pe ctx (CarrierMapStringString m) = (pe ctx (MapCarrier m), None)
   \<and> otlpProvider_Extract pe ctx (CarrierMapStringStrings h)
        = (pe ctx (HeaderCarrierPtr \<lparr>headers = h\<rparr>), None)
   \<and> otlpProvider_Inject pi ctx (CarrierTextMap c) = (Some (pi ctx c), None)
   \<and> otlpProvider_Inject pi ctx (CarrierMapStringString m) = (Some (pi ctx (MapCarrier m)), None)
   \<and> otlpProvider_Inject pi ctx (CarrierMapStringStrings h)
        = (Some (pi ctx (HeaderCarrierPtr \<lparr>headers = h\<rparr>)), None)
   \<and> (\<exists>err. otlpProvider_Extract pe ctx (CarrierOther T) = (ctx, Some err)
          \<and> Error_msg err = ''unsupported carrier type: '' @ T)
   \<and> (\<exists>err. otlpProvider_Inject pi ctx (CarrierOther T) = (None, Some err)
          \<and> Error_msg err = ''unsupported carrier type: '' @ T)
   \<and> (snd (otlpProvider_Extract pe ctx carrier) = None) = supported_carrier carrier
   \<and> (snd (otlpProvider_Inject pi ctx carrier) = None) = supported_carrier carrier"
proof -
  have "(snd (otlpProvider_Extract pe ctx carrier) = None) = supported_carrier carrier"
    by (cases carrier) (simp_all add: otlpProvider_Extract_def supported_carrier_def)
  moreover have "(snd (otlpProvider_Inject pi ctx carrier) = None) = supported_carrier carrier"
    by (cases carrier) (simp_all add: otlpProvider_Inject_def supported_carrier_def)
  ultimately show ?thesis
    by (simp add: otlpProvider_Extract_def otlpProvider_Inject_def)
qed

section \<open>Properties of the sanitized configuration\<close>

lemma HasPrefix_iff: "HasPrefix s p \<longleftrightarrow> (\<exists>q. s = p @ q)"
  by (induction s p rule: HasPrefix.induct) auto

lemma Contains_iff: "Contains s substr \<longleftrightarrow> (\<exists>p q. s = p @ substr @ q)"
proof (induction s)
  case Nil
  show ?case by auto
next
  case (Cons c cs)
  show ?case
  proof
    assume "Contains (c # cs) substr"
    then consider "HasPrefix (c # cs) substr" | "Contains cs substr" by auto
    then show "\<exists>p q. c # cs = p @ substr @ q"
    proof cases
      case 1
      then obtain q where "c # cs = substr @ q" by (auto simp: HasPrefix_iff)
      then have "c # cs = [] @ substr @ q" by simp
      then show ?thesis by blast
    next
      case 2
      then obtain p q where "cs = p @ substr @ q" using Cons.IH by blast
      then have "c # cs = (c # p) @ substr @ q" by simp
      then show ?thesis by blast
    qed
  next
    assume "\<exists>p q. c # cs = p @ substr @ q"
    then obtain p q where pq: "c # cs = p @ substr @ q" by blast
    show "Contains (c # cs) substr"
    proof (cases p)
      case Nil
      then have "HasPrefix (c # cs) substr" using pq by (auto simp: HasPrefix_iff)
      then show ?thesis by simp
    next
      case (Cons a p')
      then have "cs = p' @ substr @ q" using pq by simp
      then have "Contains cs substr" using Cons.IH by blast
      then show ?thesis by simp
    qed
  qed
qed

lemma redact_headers_eq:
  "out < length st \<Longrightarrow>
   redact_headers es out st = st[out := assign_all (map redacted_entry es) (st ! out)]"
proof (induction es arbitrary: st)
  case Nil
  then show ?case by simp
next
  case (Cons e es)
  obtain k v where e: "e = (k, v)" by (cases e)
  let ?x = "if sensitive (ToLower k) then ''[redacted]'' else v"
  let ?st = "st[out := AList.update k ?x (st ! out)]"
  have len: "out < length ?st" using Cons.prems by simp
  have "redact_headers (e # es) out st = redact_headers es out ?st"
    by (simp add: e sensitive_def Let_def)
  also have "\<dots> = ?st[out := assign_all (map redacted_entry es) (?st ! out)]"
    using Cons.IH [OF len] .
  also have "\<dots> = st[out := assign_all (map redacted_entry (e # es)) (st ! out)]"
    using Cons.prems by (simp add: e redacted_entry_def)
  finally show ?case .
qed


lemma Sanitize_Some:
  assumes r: "Headers (OTLP c) = Some r" and len: "r < length st"
  shows "Sanitize st c =
           (st @ [assign_all (map redacted_entry (st ! r)) []],
            c\<lparr>OTLP := (OTLP c)\<lparr>Headers := Some (length st)\<rparr>\<rparr>)"
proof -
  have "redact_headers (st ! r) (length st) (st @ [[]]) =
          (st @ [[]])[length st := assign_all (map redacted_entry (st ! r)) ((st @ [[]]) ! length st)]"
    by (rule redact_headers_eq) simp
  then have "redact_headers (st ! r) (length st) (st @ [[]]) =
          st @ [assign_all (map redacted_entry (st ! r)) []]"
    by simp
  then show ?thesis
    using r by (simp add: Sanitize_def Let_def)
qed





section \<open>Properties of provider selection\<close>

lemma newOTLPProvider_exporter_fails:
  "exporter_New (exporter_options st config) = Inl e \<Longrightarrow>
   newOTLPProvider exporter_New resource_New st p config =
     (p\<lparr>exporter_requests := exporter_requests p @ [exporter_options st config]\<rparr>,
      None, Some (ErrorWrap ''failed to create OTLP exporter: '' e))"
  by (simp add: newOTLPProvider_def Let_def)

lemma newOTLPProvider_resource_fails:
  "exporter_New (exporter_options st config) = Inr x \<Longrightarrow>
   resource_New (ServiceName config) = Inl e \<Longrightarrow>
   newOTLPProvider exporter_New resource_New st p config =
     (p\<lparr>exporter_requests := exporter_requests p @ [exporter_options st config]\<rparr>,
      None, Some (ErrorWrap ''failed to create resource: '' e))"
  by (simp add: newOTLPProvider_def Let_def)

lemma newOTLPProvider_succeeds:
  "exporter_New (exporter_options st config) = Inr x \<Longrightarrow>
   resource_New (ServiceName config) = Inr y \<Longrightarrow>
   snd (newOTLPProvider exporter_New resource_New st p config) =
     (Some (OtlpProvider config
        \<lparr>tp_exporter = x, tp_resource = y, tp_sample_ratio = SampleRate config\<rparr>), None)"
  by (simp add: newOTLPProvider_def Let_def)

lemma newOTLPProvider_requests:
  "exporter_requests (fst (newOTLPProvider exporter_New resource_New st p config)) =
     exporter_requests p @ [exporter_options st config]"
  by (simp add: newOTLPProvider_def Let_def logger_Info_def split: sum.splits)

text \<open>
  C1.  \<open>NewTracer\<close> chooses the provider in one pass.  Disabled: the no-op provider,
  after one log entry at info level, and no error.  Enabled with provider \<open>otlp\<close>:
  the provider built by \<open>newOTLPProvider\<close>; when creating the exporter or the
  resource fails, the error of the construction is returned with the empty \<open>Result\<close>.
  Enabled with provider \<open>noop\<close>: the no-op provider, nothing logged, no error.
  Enabled with any other name: the no-op provider, after a warning whose field names
  the provider asked for, and no error.
\<close>

theorem NewTracer_selects_provider:
  "(\<not> Enabled config \<longrightarrow>
      NewTracer exporter_New resource_New st p config =
        (p\<lparr>logged := logged p @
             [\<lparr>level = Info, message = ''tracing is disabled, using noop tracer'',
               log_fields = []\<rparr>]\<rparr>,
         \<lparr>Result_Tracer = Some NoopProvider, Result_Provider = Some NoopProvider\<rparr>, None))
   \<and> (Enabled config \<and> Provider config = ''noop'' \<longrightarrow>
      NewTracer exporter_New resource_New st p config =
        (p, \<lparr>Result_Tracer = Some NoopProvider, Result_Provider = Some NoopProvider\<rparr>, None))
   \<and> (Enabled config \<and> Provider config \<noteq> ''otlp'' \<and> Provider config \<noteq> ''noop'' \<longrightarrow>
      NewTracer exporter_New resource_New st p config =
        (p\<lparr>logged := logged p @
             [\<lparr>level = Warn, message = ''unknown tracing provider, using noop'',
               log_fields = [(''provider'', Provider config)]\<rparr>]\<rparr>,
         \<lparr>Result_Tracer = Some NoopProvider, Result_Provider = Some NoopProvider\<rparr>, None))
   \<and> (Enabled config \<and> Provider config = ''otlp''
        \<and> exporter_New (exporter_options st config) = Inl e \<longrightarrow>
      snd (NewTracer exporter_New resource_New st p config) =
        (\<lparr>Result_Tracer = None, Result_Provider = None\<rparr>,
         Some (ErrorWrap ''failed to create OTLP exporter: '' e)))
   \<and> (Enabled config \<and> Provider config = ''otlp''
        \<and> exporter_New (exporter_options st config) = Inr x
        \<and> resource_New (ServiceName config) = Inl e \<longrightarrow>
      snd (NewTracer exporter_New resource_New st p config) =
        (\<lparr>Result_Tracer = None, Result_Provider = None\<rparr>,
         Some (ErrorWrap ''failed to create resource: '' e)))
   \<and> (Enabled config \<and> Provider config = ''otlp''
        \<and> exporter_New (exporter_options st config) = Inr x
        \<and> resource_New (ServiceName config) = Inr y \<longrightarrow>
      snd (NewTracer exporter_New resource_New st p config) =
        (\<lparr>Result_Tracer = Some (OtlpProvider config
             \<lparr>tp_exporter = x, tp_resource = y, tp_sample_ratio = SampleRate config\<rparr>),
          Result_Provider = Some (OtlpProvider config
             \<lparr>tp_exporter = x, tp_resource = y, tp_sample_ratio = SampleRate config\<rparr>)\<rparr>,
         None))
   \<and> (\<not> (Enabled config \<and> Provider config = ''otlp'') \<longrightarrow>
      snd (snd (NewTracer exporter_New resource_New st p config)) = None)"
proof -
  have disabled: "\<not> Enabled config \<longrightarrow>
      NewTracer exporter_New resource_New st p config =
        (p\<lparr>logged := logged p @
             [\<lparr>level = Info, message = ''tracing is disabled, using noop tracer'',
               log_fields = []\<rparr>]\<rparr>,
         \<lparr>Result_Tracer = Some NoopProvider, Result_Provider = Some NoopProvider\<rparr>, None)"
    by (simp add: NewTracer_def logger_Info_def newNoopProvider_def)
  have noop: "Enabled config \<and> Provider config = ''noop'' \<longrightarrow>
      NewTracer exporter_New resource_New st p config =
        (p, \<lparr>Result_Tracer = Some NoopProvider, Result_Provider = Some NoopProvider\<rparr>, None)"
    by (simp add: NewTracer_def newNoopProvider_def)
  have unknown: "Enabled config \<and> Provider config \<noteq> ''otlp'' \<and> Provider config \<noteq> ''noop'' \<longrightarrow>
      NewTracer exporter_New resource_New st p config =
        (p\<lparr>logged := logged p @
             [\<lparr>level = Warn, message = ''unknown tracing provider, using noop'',
               log_fields = [(''provider'', Provider config)]\<rparr>]\<rparr>,
         \<lparr>Result_Tracer = Some NoopProvider, Result_Provider = Some NoopProvider\<rparr>, None)"
    by (simp add: NewTracer_def logger_Warn_def newNoopProvider_def)
  have exporter: "Enabled config \<and> Provider config = ''otlp''
        \<and> exporter_New (exporter_options st config) = Inl e \<longrightarrow>
      snd (NewTracer exporter_New resource_New st p config) =
        (\<lparr>Result_Tracer = None, Result_Provider = None\<rparr>,
         Some (ErrorWrap ''failed to create OTLP exporter: '' e))"
    by (simp add: NewTracer_def newOTLPProvider_exporter_fails)
  have resource: "Enabled config \<and> Provider config = ''otlp''
        \<and> exporter_New (exporter_options st config) = Inr x
        \<and> resource_New (ServiceName config) = Inl e \<longrightarrow>
      snd (NewTracer exporter_New resource_New st p config) =
        (\<lparr>Result_Tracer = None, Result_Provider = None\<rparr>,
         Some (ErrorWrap ''failed to create resource: '' e))"
    by (simp add: NewTracer_def newOTLPProvider_resource_fails)
  have built: "Enabled config \<and> Provider config = ''otlp''
        \<and> exporter_New (exporter_options st config) = Inr x
        \<and> resource_New (ServiceName config) = Inr y \<longrightarrow>
      snd (NewTracer exporter_New resource_New st p config) =
        (\<lparr>Result_Tracer = Some (OtlpProvider config
             \<lparr>tp_exporter = x, tp_resource = y, tp_sample_ratio = SampleRate config\<rparr>),
          Result_Provider = Some (OtlpProvider config
             \<lparr>tp_exporter = x, tp_resource = y, tp_sample_ratio = SampleRate config\<rparr>)\<rparr>,
         None)"
  proof
    assume a: "Enabled config \<and> Provider config = ''otlp''
        \<and> exporter_New (exporter_options st config) = Inr x
        \<and> resource_New (ServiceName config) = Inr y"
    then have "snd (newOTLPProvider exporter_New resource_New st p config) =
        (Some (OtlpProvider config
           \<lparr>tp_exporter = x, tp_resource = y, tp_sample_ratio = SampleRate config\<rparr>), None)"
      by (simp add: newOTLPProvider_succeeds)
    then show "snd (NewTracer exporter_New resource_New st p config) =
        (\<lparr>Result_Tracer = Some (OtlpProvider config
             \<lparr>tp_exporter = x, tp_resource = y, tp_sample_ratio = SampleRate config\<rparr>),
          Result_Provider = Some (OtlpProvider config
             \<lparr>tp_exporter = x, tp_resource = y, tp_sample_ratio = SampleRate config\<rparr>)\<rparr>,
         None)"
      using a by (cases "newOTLPProvider exporter_New resource_New st p config")
                 (simp add: NewTracer_def)
  qed
  have no_error: "\<not> (Enabled config \<and> Provider config = ''otlp'') \<longrightarrow>
      snd (snd (NewTracer exporter_New resource_New st p config)) = None"
    by (simp add: NewTracer_def Let_def)
  show ?thesis
    by (intro conjI) (rule disabled noop unknown exporter resource built no_error)+
qed

theorem NewTracer_selects_provider_witness:
  "NewTracer (\<lambda>opts. Inl (ErrorNew ''dial'')) (\<lambda>name. Inr 2) []
       \<lparr>logged = [], otel_TracerProvider = None, otel_TextMapPropagator = [],
         exporter_requests = []\<rparr> zeroConfig =
     (\<lparr>logged = [\<lparr>level = Info, message = ''tracing is disabled, using noop tracer'',
                   log_fields = []\<rparr>],
        otel_TracerProvider = None, otel_TextMapPropagator = [], exporter_requests = []\<rparr>,
      \<lparr>Result_Tracer = Some NoopProvider, Result_Provider = Some NoopProvider\<rparr>, None)
   \<and> NewTracer (\<lambda>opts. Inl (ErrorNew ''dial'')) (\<lambda>name. Inr 2) []
       \<lparr>logged = [], otel_TracerProvider = None, otel_TextMapPropagator = [],
         exporter_requests = []\<rparr> (zeroConfig\<lparr>Enabled := True, Provider := ''noop''\<rparr>) =
     (\<lparr>logged = [], otel_TracerProvider = None, otel_TextMapPropagator = [],
        exporter_requests = []\<rparr>,
      \<lparr>Result_Tracer = Some NoopProvider, Result_Provider = Some NoopProvider\<rparr>, None)
   \<and> NewTracer (\<lambda>opts. Inl (ErrorNew ''dial'')) (\<lambda>name. Inr 2) []
       \<lparr>logged = [], otel_TracerProvider = None, otel_TextMapPropagator = [],
         exporter_requests = []\<rparr> (zeroConfig\<lparr>Enabled := True, Provider := ''jaeger''\<rparr>) =
     (\<lparr>logged = [\<lparr>level = Warn, message = ''unknown tracing provider, using noop'',
                   log_fields = [(''provider'', ''jaeger'')]\<rparr>],
        otel_TracerProvider = None, otel_TextMapPropagator = [], exporter_requests = []\<rparr>,
      \<lparr>Result_Tracer = Some NoopProvider, Result_Provider = Some NoopProvider\<rparr>, None)
   \<and> snd (NewTracer (\<lambda>opts. Inl (ErrorNew ''dial'')) (\<lambda>name. Inr 2) []
       \<lparr>logged = [], otel_TracerProvider = None, otel_TextMapPropagator = [],
         exporter_requests = []\<rparr> (zeroConfig\<lparr>Enabled := True, Provider := ''otlp''\<rparr>)) =
     (\<lparr>Result_Tracer = None, Result_Provider = None\<rparr>,
      Some (ErrorWrap ''failed to create OTLP exporter: '' (ErrorNew ''dial'')))
   \<and> snd (NewTracer (\<lambda>opts. Inr 1) (\<lambda>name. Inl (ErrorNew ''detect'')) []
       \<lparr>logged = [], otel_TracerProvider = None, otel_TextMapPropagator = [],
         exporter_requests = []\<rparr> (zeroConfig\<lparr>Enabled := True, Provider := ''otlp''\<rparr>)) =
     (\<lparr>Result_Tracer = None, Result_Provider = None\<rparr>,
      Some (ErrorWrap ''failed to create resource: '' (ErrorNew ''detect'')))
   \<and> snd (NewTracer (\<lambda>opts. Inr 1) (\<lambda>name. Inr 2) []
       \<lparr>logged = [], otel_TracerProvider = None, otel_TextMapPropagator = [],
         exporter_requests = []\<rparr> (zeroConfig\<lparr>Enabled := True, Provider := ''otlp''\<rparr>)) =
     (\<lparr>Result_Tracer = Some (OtlpProvider (zeroConfig\<lparr>Enabled := True, Provider := ''otlp''\<rparr>)
          \<lparr>tp_exporter = 1, tp_resource = 2, tp_sample_ratio = 0\<rparr>),
       Result_Provider = Some (OtlpProvider (zeroConfig\<lparr>Enabled := True, Provider := ''otlp''\<rparr>)
          \<lparr>tp_exporter = 1, tp_resource = 2, tp_sample_ratio = 0\<rparr>)\<rparr>,
      None)"
proof -
  let ?p = "\<lparr>logged = [], otel_TracerProvider = None, otel_TextMapPropagator = [],
         exporter_requests = []\<rparr>"
  let ?fail = "\<lambda>opts :: exporter_option list. (Inl (ErrorNew ''dial'') :: error + nat)"
  let ?ok1 = "\<lambda>opts :: exporter_option list. (Inr 1 :: error + nat)"
  let ?ok2 = "\<lambda>name :: string. (Inr 2 :: error + nat)"
  let ?bad2 = "\<lambda>name :: string. (Inl (ErrorNew ''detect'') :: error + nat)"
  let ?otlp = "zeroConfig\<lparr>Enabled := True, Provider := ''otlp''\<rparr>"
  have a: "NewTracer ?fail ?ok2 [] ?p zeroConfig =
     (\<lparr>logged = [\<lparr>level = Info, message = ''tracing is disabled, using noop tracer'',
                   log_fields = []\<rparr>],
        otel_TracerProvider = None, otel_TextMapPropagator = [], exporter_requests = []\<rparr>,
      \<lparr>Result_Tracer = Some NoopProvider, Result_Provider = Some NoopProvider\<rparr>, None)"
    using NewTracer_selects_provider
      [where config = zeroConfig and st = "[]" and p = ?p and exporter_New = ?fail
         and resource_New = ?ok2]
    by (simp add: zeroConfig_def)
  have b: "NewTracer ?fail ?ok2 [] ?p (zeroConfig\<lparr>Enabled := True, Provider := ''noop''\<rparr>) =
     (?p, \<lparr>Result_Tracer = Some NoopProvider, Result_Provider = Some NoopProvider\<rparr>, None)"
    using NewTracer_selects_provider
      [where config = "zeroConfig\<lparr>Enabled := True, Provider := ''noop''\<rparr>" and st = "[]"
         and p = ?p and exporter_New = ?fail and resource_New = ?ok2]
    by (simp add: zeroConfig_def)
  have c: "NewTracer ?fail ?ok2 [] ?p (zeroConfig\<lparr>Enabled := True, Provider := ''jaeger''\<rparr>) =
     (\<lparr>logged = [\<lparr>level = Warn, message = ''unknown tracing provider, using noop'',
                   log_fields = [(''provider'', ''jaeger'')]\<rparr>],
        otel_TracerProvider = None, otel_TextMapPropagator = [], exporter_requests = []\<rparr>,
      \<lparr>Result_Tracer = Some NoopProvider, Result_Provider = Some NoopProvider\<rparr>, None)"
    using NewTracer_selects_provider
      [where config = "zeroConfig\<lparr>Enabled := True, Provider := ''jaeger''\<rparr>" and st = "[]"
         and p = ?p and exporter_New = ?fail and resource_New = ?ok2]
    by (simp add: zeroConfig_def)
  have d: "snd (NewTracer ?fail ?ok2 [] ?p ?otlp) =
     (\<lparr>Result_Tracer = None, Result_Provider = None\<rparr>,
      Some (ErrorWrap ''failed to create OTLP exporter: '' (ErrorNew ''dial'')))"
    using NewTracer_selects_provider
      [where config = ?otlp and st = "[]" and p = ?p and exporter_New = ?fail
         and resource_New = ?ok2 and e = "ErrorNew ''dial''"]
    by (simp add: zeroConfig_def)
  have e: "snd (NewTracer ?ok1 ?bad2 [] ?p ?otlp) =
     (\<lparr>Result_Tracer = None, Result_Provider = None\<rparr>,
      Some (ErrorWrap ''failed to create resource: '' (ErrorNew ''detect'')))"
    using NewTracer_selects_provider
      [where config = ?otlp and st = "[]" and p = ?p and exporter_New = ?ok1
         and resource_New = ?bad2 and e = "ErrorNew ''detect''" and x = 1]
    by (simp add: zeroConfig_def)
  have f: "snd (NewTracer ?ok1 ?ok2 [] ?p ?otlp) =
     (\<lparr>Result_Tracer = Some (OtlpProvider ?otlp
          \<lparr>tp_exporter = 1, tp_resource = 2, tp_sample_ratio = 0\<rparr>),
       Result_Provider = Some (OtlpProvider ?otlp
          \<lparr>tp_exporter = 1, tp_resource = 2, tp_sample_ratio = 0\<rparr>)\<rparr>,
      None)"
    using NewTracer_selects_provider
      [where config = ?otlp and st = "[]" and p = ?p and exporter_New = ?ok1
         and resource_New = ?ok2 and x = 1 and y = 2]
    by (simp add: zeroConfig_def)
  show ?thesis
    by (intro conjI) (rule a b c d e f)+
qed

section \<open>Properties of the loaded configuration\<close>

lemma NewConfig_eq: "NewConfig loader_Bind st = loader_Bind st zeroConfig"
  by (cases "loader_Bind st zeroConfig" rule: prod_cases3)
     (simp add: NewConfig_def split: option.splits)

lemma Sanitize_keeps_receiver_entries:
  "Headers (OTLP c) = Some r \<Longrightarrow> r < length st \<Longrightarrow>
   header_entries (fst (Sanitize st c)) c = header_entries st c"
  by (simp add: Sanitize_Some header_entries_def nth_append)

text \<open>
  C9.  \<open>NewConfig\<close> returns what the loader bound, unchanged.  So the exporter
  options that \<open>newOTLPProvider\<close> builds from the returned configuration, and hands to
  the exporter, are those of the loaded configuration: when it has headers, the last
  option carries exactly the loaded header entries.  Taking a sanitized copy of the
  configuration does not change the entries the configuration itself holds.
\<close>

theorem NewConfig_returns_loaded_config:
  "NewConfig loader_Bind st = loader_Bind st zeroConfig
   \<and> (loader_Bind st zeroConfig = (st', cfg, None) \<longrightarrow>
        NewConfig loader_Bind st = (st', cfg, None)
        \<and> exporter_requests
             (fst (newOTLPProvider exporter_New resource_New st' p
                     (fst (snd (NewConfig loader_Bind st)))))
           = exporter_requests p @ [exporter_options st' cfg]
        \<and> (header_entries st' cfg \<noteq> [] \<longrightarrow>
             last (exporter_options st' cfg) = otlptracegrpc_WithHeaders (header_entries st' cfg))
        \<and> (\<forall>r. Headers (OTLP cfg) = Some r \<and> r < length st' \<longrightarrow>
             header_entries (fst (Sanitize st' cfg)) cfg = header_entries st' cfg))"
proof -
  have opts: "header_entries st' cfg \<noteq> [] \<longrightarrow>
      last (exporter_options st' cfg) = otlptracegrpc_WithHeaders (header_entries st' cfg)"
    by (simp add: exporter_options_def Let_def)
  have copy: "\<forall>r. Headers (OTLP cfg) = Some r \<and> r < length st' \<longrightarrow>
      header_entries (fst (Sanitize st' cfg)) cfg = header_entries st' cfg"
    by (simp add: Sanitize_keeps_receiver_entries)
  show ?thesis
    using opts copy by (simp add: NewConfig_eq newOTLPProvider_requests)
qed

theorem NewConfig_returns_loaded_config_witness:
  "NewConfig (\<lambda>st c. (st @ [[(''api-key'', ''secret'')]],
                       c\<lparr>OTLP := (OTLP c)\<lparr>Headers := Some (length st)\<rparr>\<rparr>, None)) []
     = ([[(''api-key'', ''secret'')]],
        zeroConfig\<lparr>OTLP := (OTLP zeroConfig)\<lparr>Headers := Some 0\<rparr>\<rparr>, None)
   \<and> last (exporter_options [[(''api-key'', ''secret'')]]
             (zeroConfig\<lparr>OTLP := (OTLP zeroConfig)\<lparr>Headers := Some 0\<rparr>\<rparr>))
       = otlptracegrpc_WithHeaders [(''api-key'', ''secret'')]
   \<and> header_entries
        (fst (Sanitize [[(''api-key'', ''secret'')]]
                (zeroConfig\<lparr>OTLP := (OTLP zeroConfig)\<lparr>Headers := Some 0\<rparr>\<rparr>)))
        (zeroConfig\<lparr>OTLP := (OTLP zeroConfig)\<lparr>Headers := Some 0\<rparr>\<rparr>)
       = [(''api-key'', ''secret'')]"
  using NewConfig_returns_loaded_config
    [where loader_Bind = "\<lambda>st c. (st @ [[(''api-key'', ''secret'')]],
                       c\<lparr>OTLP := (OTLP c)\<lparr>Headers := Some (length st)\<rparr>\<rparr>, None)"
       and st = "[]" and st' = "[[(''api-key'', ''secret'')]]"
       and cfg = "zeroConfig\<lparr>OTLP := (OTLP zeroConfig)\<lparr>Headers := Some 0\<rparr>\<rparr>"]
  by (simp add: header_entries_def zeroConfig_def)

text \<open>
  The earlier revision of \<open>NewConfig\<close> behaved otherwise: the configuration it returned
  pointed at the sanitized map, so the exporter would have been handed \<open>[redacted]\<close>.
\<close>

lemma NewConfig_sanitizing_hands_redacted_headers:
  "(case NewConfig_sanitizing
           (\<lambda>st c. (st @ [[(''api-key'', ''secret'')]],
                     c\<lparr>OTLP := (OTLP c)\<lparr>Headers := Some (length st)\<rparr>\<rparr>, None)) [] of
      (st', cfg, err) \<Rightarrow>
        err = None \<and> last (exporter_options st' cfg)
                        = otlptracegrpc_WithHeaders [(''api-key'', ''[redacted]'')])"
  by (simp add: NewConfig_sanitizing_def Sanitize_def zeroConfig_def exporter_options_def
        header_entries_def ToLower_def lower_byte_def Let_def)

end
